theory Spec2Isabelle
  imports Complex_Main "HOL-Library.Sublist" "HOL-Library.AList"
begin

section \<open>Python values and primitive operations\<close>

text \<open>
  The handler works on JSON-decoded, dynamically typed data. A value is one of the JSON
  shapes; a dict is an association list in insertion order, its keys strings (JSON object
  keys). JSON floats are left out: no operation of the handler tells a float from an int.
\<close>

datatype pyval =
    PNone
  | PBool bool
  | PInt int
  | PStr string
  | PList "pyval list"
  | PDict "(string \<times> pyval) list"

text \<open>
  Exceptions. \<open>KeyError k\<close> is a missing key \<open>k\<close>; \<open>EnvError m\<close> is any exception raised
  by the environment or a library (network, file system, base64, JSON), with \<open>m\<close> its text.
\<close>

datatype exn =
  TypeError | AttributeError | KeyError string | IndexError | ValueError | EnvError string

type_synonym 'a res = "exn + 'a"

definition bind_res :: "'a res \<Rightarrow> ('a \<Rightarrow> 'b res) \<Rightarrow> 'b res" where
  "bind_res m f = (case m of Inl e \<Rightarrow> Inl e | Inr x \<Rightarrow> f x)"

text \<open>Truthiness, as \<open>if x:\<close> and \<open>not x\<close> test it.\<close>

fun py_truthy :: "pyval \<Rightarrow> bool" where
  "py_truthy PNone = False"
| "py_truthy (PBool b) = b"
| "py_truthy (PInt i) = (i \<noteq> 0)"
| "py_truthy (PStr s) = (s \<noteq> [])"
| "py_truthy (PList xs) = (xs \<noteq> [])"
| "py_truthy (PDict kvs) = (kvs \<noteq> [])"

text \<open>\<open>x.get(k)\<close> and \<open>x.get(k, d)\<close>: only a dict has the method.\<close>

fun py_get_default :: "pyval \<Rightarrow> string \<Rightarrow> pyval \<Rightarrow> pyval res" where
  "py_get_default (PDict kvs) k d = Inr (case map_of kvs k of None \<Rightarrow> d | Some v \<Rightarrow> v)"
| "py_get_default _ k d = Inl AttributeError"

definition py_get :: "pyval \<Rightarrow> string \<Rightarrow> pyval res" where
  "py_get x k = py_get_default x k PNone"

text \<open>\<open>x[k]\<close> with a string key \<open>k\<close>.\<close>

fun py_getitem :: "pyval \<Rightarrow> string \<Rightarrow> pyval res" where
  "py_getitem (PDict kvs) k = (case map_of kvs k of None \<Rightarrow> Inl (KeyError k) | Some v \<Rightarrow> Inr v)"
| "py_getitem _ k = Inl TypeError"

text \<open>Python's \<open>==\<close> on JSON values: a bool equals the int 0 or 1, dicts compare by content.\<close>

fun py_eq :: "pyval \<Rightarrow> pyval \<Rightarrow> bool"
  and py_eq_list :: "pyval list \<Rightarrow> pyval list \<Rightarrow> bool"
  and py_eq_items :: "(string \<times> pyval) list \<Rightarrow> (string \<times> pyval) list \<Rightarrow> bool" where
  "py_eq PNone b = (b = PNone)"
| "py_eq (PBool x) b =
     (case b of PBool y \<Rightarrow> x = y | PInt j \<Rightarrow> (if x then 1 else 0) = j | _ \<Rightarrow> False)"
| "py_eq (PInt i) b =
     (case b of PBool y \<Rightarrow> i = (if y then 1 else 0) | PInt j \<Rightarrow> i = j | _ \<Rightarrow> False)"
| "py_eq (PStr s) b = (b = PStr s)"
| "py_eq (PList xs) b = (case b of PList ys \<Rightarrow> py_eq_list xs ys | _ \<Rightarrow> False)"
| "py_eq (PDict kvs) b =
     (case b of PDict kvs' \<Rightarrow> length kvs = length kvs' \<and> py_eq_items kvs kvs' | _ \<Rightarrow> False)"
| "py_eq_list [] ys = (ys = [])"
| "py_eq_list (x # xs) ys =
     (case ys of [] \<Rightarrow> False | y # ys' \<Rightarrow> py_eq x y \<and> py_eq_list xs ys')"
| "py_eq_items [] kvs' = True"
| "py_eq_items ((k, v) # kvs) kvs' =
     (case map_of kvs' k of None \<Rightarrow> False | Some v' \<Rightarrow> py_eq v v' \<and> py_eq_items kvs kvs')"

text \<open>\<open>sub in s\<close> on strings: \<open>sub\<close> occurs in \<open>s\<close> as a contiguous run.\<close>

fun is_substring :: "string \<Rightarrow> string \<Rightarrow> bool" where
  "is_substring sub [] = (sub = [])"
| "is_substring sub (c # cs) = (prefix sub (c # cs) \<or> is_substring sub cs)"

text \<open>
  \<open>item in container\<close>. A dict tests its keys (an unhashable item raises), a list compares
  its elements with \<open>==\<close>, a string wants a string; anything else is not a container.
\<close>

fun py_contains :: "pyval \<Rightarrow> pyval \<Rightarrow> bool res" where
  "py_contains (PDict kvs) item =
     (case item of
        PStr k \<Rightarrow> Inr (map_of kvs k \<noteq> None)
      | PList _ \<Rightarrow> Inl TypeError
      | PDict _ \<Rightarrow> Inl TypeError
      | _ \<Rightarrow> Inr False)"
| "py_contains (PList xs) item = Inr (list_ex (py_eq item) xs)"
| "py_contains (PStr s) item =
     (case item of PStr sub \<Rightarrow> Inr (is_substring sub s) | _ \<Rightarrow> Inl TypeError)"
| "py_contains _ item = Inl TypeError"

text \<open>A sequence indexed by an integer: a negative index counts from the end.\<close>

definition seq_index :: "'a list \<Rightarrow> int \<Rightarrow> 'a res" where
  "seq_index xs i =
     (if 0 \<le> i \<and> i < int (length xs) then Inr (xs ! nat i)
      else if i < 0 \<and> - int (length xs) \<le> i then Inr (xs ! nat (int (length xs) + i))
      else Inl IndexError)"

text \<open>
  \<open>x[key]\<close> with any key, as \<open>history[prompt_id]\<close> needs it: a dict looks the key up, a
  list or a string wants an integer (a bool counts as 0 or 1).
\<close>

fun py_getitem_val :: "pyval \<Rightarrow> pyval \<Rightarrow> pyval res" where
  "py_getitem_val (PDict kvs) key =
     (case key of
        PStr k \<Rightarrow> py_getitem (PDict kvs) k
      | PList _ \<Rightarrow> Inl TypeError
      | PDict _ \<Rightarrow> Inl TypeError
      | _ \<Rightarrow> Inl (KeyError []))"
| "py_getitem_val (PList xs) key =
     (case key of
        PInt i \<Rightarrow> seq_index xs i
      | PBool b \<Rightarrow> seq_index xs (if b then 1 else 0)
      | _ \<Rightarrow> Inl TypeError)"
| "py_getitem_val (PStr s) key =
     (case key of
        PInt i \<Rightarrow> map_sum (\<lambda>e. e) (\<lambda>c. PStr [c]) (seq_index s i)
      | PBool b \<Rightarrow> map_sum (\<lambda>e. e) (\<lambda>c. PStr [c]) (seq_index s (if b then 1 else 0))
      | _ \<Rightarrow> Inl TypeError)"
| "py_getitem_val _ key = Inl TypeError"

text \<open>\<open>for x in v\<close>: the elements of a list, the keys of a dict, the characters of a string.\<close>

fun py_iter :: "pyval \<Rightarrow> pyval list res" where
  "py_iter (PList xs) = Inr xs"
| "py_iter (PDict kvs) = Inr (map (\<lambda>kv. PStr (fst kv)) kvs)"
| "py_iter (PStr s) = Inr (map (\<lambda>c. PStr [c]) s)"
| "py_iter _ = Inl TypeError"

text \<open>\<open>d.items()\<close>.\<close>

fun py_items :: "pyval \<Rightarrow> (string \<times> pyval) list res" where
  "py_items (PDict kvs) = Inr kvs"
| "py_items _ = Inl AttributeError"

text \<open>\<open>s.startswith(p)\<close> and \<open>s.endswith(p)\<close>: only a string has the methods.\<close>

fun py_startswith :: "pyval \<Rightarrow> string \<Rightarrow> bool res" where
  "py_startswith (PStr s) p = Inr (prefix p s)"
| "py_startswith _ p = Inl AttributeError"

fun py_endswith :: "pyval \<Rightarrow> string \<Rightarrow> bool res" where
  "py_endswith (PStr s) p = Inr (suffix p s)"
| "py_endswith _ p = Inl AttributeError"

text \<open>\<open>s.find(c)\<close> for a one-character needle: the first index, or -1.\<close>

fun str_find :: "string \<Rightarrow> char \<Rightarrow> int" where
  "str_find [] c = -1"
| "str_find (x # xs) c =
     (if x = c then 0 else (let r = str_find xs c in if r = -1 then -1 else r + 1))"

text \<open>
  \<open>os.path.join\<close> (posixpath): a component starting with a slash replaces what came
  before; otherwise it is appended, after a slash unless the path is empty or ends in one.
\<close>

definition join2 :: "string \<Rightarrow> string \<Rightarrow> string" where
  "join2 path b =
     (if prefix ''/'' b then b
      else if path = [] \<or> suffix ''/'' path then path @ b
      else path @ ''/'' @ b)"

text \<open>\<open>os.path.join\<close> on values: every component must be a string.\<close>

fun py_path_join :: "string \<Rightarrow> pyval list \<Rightarrow> string res" where
  "py_path_join a [] = Inr a"
| "py_path_join a (PStr b # ps) = py_path_join (join2 a b) ps"
| "py_path_join a (_ # ps) = Inl TypeError"


section \<open>The environment\<close>

text \<open>
  What the handler reads from outside during one job: the file system, the backend's
  answers (the \<open>n\<close>-th answer of each endpoint, counted from 0), the libraries it calls
  and the configuration taken from environment variables.
\<close>

datatype file_state = Missing | Unreadable | Malformed | Parsed pyval

datatype get_result = Status int | RequestException

record world =
  json_loads :: "string \<Rightarrow> pyval option"
  workflow_files :: "string \<Rightarrow> file_state"
  http_get :: "nat \<Rightarrow> get_result"
  b64decode :: "string \<Rightarrow> string res"
  upload_post :: "nat \<Rightarrow> pyval \<Rightarrow> string \<Rightarrow> (int \<times> string) res"
  queue_post :: "pyval \<Rightarrow> pyval res"
  history_get :: "nat \<Rightarrow> pyval \<Rightarrow> pyval res"
  path_exists :: "string \<Rightarrow> bool"
  walk :: "string \<Rightarrow> (string \<times> string list) list"
  getmtime :: "string \<Rightarrow> real res"
  now :: real
  bucket_upload :: "pyval \<Rightarrow> string \<Rightarrow> pyval res"
  read_base64 :: "string \<Rightarrow> string res"
  exc_text :: "exn \<Rightarrow> string"
  repr :: "pyval \<Rightarrow> string"
  polling_interval_ms :: int
  polling_max_retries :: int
  refresh_worker :: bool
  comfy_output_path :: string
  bucket_endpoint_url :: bool

text \<open>\<open>str(e)\<close> of an exception and \<open>str(v)\<close> of a value inside an f-string.\<close>

definition exc_str :: "world \<Rightarrow> exn \<Rightarrow> string" where
  "exc_str w e = (case e of EnvError m \<Rightarrow> m | _ \<Rightarrow> exc_text w e)"

definition py_str :: "world \<Rightarrow> pyval \<Rightarrow> string" where
  "py_str w v = (case v of PStr s \<Rightarrow> s | _ \<Rightarrow> repr w v)"

definition COMFY_API_AVAILABLE_INTERVAL_MS :: int where
  "COMFY_API_AVAILABLE_INTERVAL_MS = 50"

definition COMFY_API_AVAILABLE_MAX_RETRIES :: int where
  "COMFY_API_AVAILABLE_MAX_RETRIES = 500"

definition COMFY_HOST :: string where
  "COMFY_HOST = ''127.0.0.1:8188''"

definition WORKFLOW_DIR :: string where
  "WORKFLOW_DIR = ''/runpod-volume/workflows''"

section \<open>load_workflow_by_name\<close>

text \<open>
  The branches on the parsed file (the \<open>if\<close>/\<open>elif\<close> chain inside the \<open>try\<close>). The third
  branch is reached by a value that is not a dict; its subscript then raises.
\<close>

definition canonicalize_workflow :: "pyval \<Rightarrow> pyval res" where
  "canonicalize_workflow workflow_data =
     (case workflow_data of
        PDict kvs \<Rightarrow>
          (if map_of kvs ''prompt'' = None then Inr workflow_data
           else py_getitem workflow_data ''prompt'')
      | _ \<Rightarrow>
          bind_res (py_contains workflow_data (PStr ''input'')) (\<lambda>has_input.
            if \<not> has_input then Inr workflow_data
            else bind_res (py_getitem workflow_data ''input'') (\<lambda>inner.
              bind_res (py_contains inner (PStr ''workflow'')) (\<lambda>has_workflow.
                if \<not> has_workflow then Inr workflow_data
                else bind_res (py_getitem workflow_data ''input'') (\<lambda>inner'.
                  py_getitem inner' ''workflow'')))))"

text \<open>
  The whole function: \<open>None\<close> for a missing file and for every exception inside the
  \<open>try\<close>; \<open>workflow_name.endswith\<close> is outside it.
\<close>

definition load_workflow_by_name :: "world \<Rightarrow> pyval \<Rightarrow> pyval res" where
  "load_workflow_by_name w workflow_name =
     bind_res (py_endswith workflow_name ''.json'') (\<lambda>has_ext.
       let name = (if has_ext then py_str w workflow_name
                   else py_str w workflow_name @ ''.json'');
           workflow_path = join2 WORKFLOW_DIR name
       in case workflow_files w workflow_path of
            Missing \<Rightarrow> Inr PNone
          | Unreadable \<Rightarrow> Inr PNone
          | Malformed \<Rightarrow> Inr PNone
          | Parsed workflow_data \<Rightarrow>
              (case canonicalize_workflow workflow_data of
                 Inl e \<Rightarrow> Inr PNone
               | Inr v \<Rightarrow> Inr v))"

section \<open>validate_input\<close>

text \<open>
  The generator inside \<open>all(...)\<close>: it stops at the first element that fails a test, and
  an element that is no container raises.
\<close>

fun all_have_keys :: "pyval list \<Rightarrow> bool res" where
  "all_have_keys [] = Inr True"
| "all_have_keys (img # imgs) =
     bind_res (py_contains img (PStr ''name'')) (\<lambda>has_name.
       if \<not> has_name then Inr False
       else bind_res (py_contains img (PStr ''image'')) (\<lambda>has_image.
         if \<not> has_image then Inr False else all_have_keys imgs))"

text \<open>The \<open>images\<close> check and the final return, given the workflow settled before.\<close>

definition validate_images :: "pyval \<Rightarrow> pyval \<Rightarrow> (pyval \<times> pyval) res" where
  "validate_images job_input workflow =
     bind_res (py_get job_input ''images'') (\<lambda>images.
       let accept = Inr (PDict [(''workflow'', workflow), (''images'', images)], PNone);
           reject = Inr (PNone,
             PStr '''images' must be a list of objects with 'name' and 'image' keys'')
       in if images = PNone then accept
          else (case images of
                  PList xs \<Rightarrow>
                    bind_res (all_have_keys xs) (\<lambda>ok. if \<not> ok then reject else accept)
                | _ \<Rightarrow> reject))"

text \<open>The result is Python's pair \<open>(validated_data, error_message)\<close>.\<close>

definition validate_input :: "world \<Rightarrow> pyval \<Rightarrow> (pyval \<times> pyval) res" where
  "validate_input w job_input =
     (if job_input = PNone then Inr (PNone, PStr ''Please provide input'')
      else
        case (case job_input of PStr s \<Rightarrow> json_loads w s | _ \<Rightarrow> Some job_input) of
          None \<Rightarrow> Inr (PNone, PStr ''Invalid JSON format in input'')
        | Some parsed \<Rightarrow>
            bind_res (py_get parsed ''workflow'') (\<lambda>workflow.
            bind_res (py_get parsed ''workflow_name'') (\<lambda>workflow_name.
              if \<not> py_truthy workflow \<and> \<not> py_truthy workflow_name
              then Inr (PNone, PStr ''Missing 'workflow' or 'workflow_name' parameter'')
              else if py_truthy workflow_name
              then bind_res (load_workflow_by_name w workflow_name) (\<lambda>loaded.
                     if \<not> py_truthy loaded
                     then Inr (PNone,
                            PStr (''Could not load workflow: '' @ py_str w workflow_name))
                     else validate_images parsed loaded)
              else validate_images parsed workflow)))"

text \<open>The data-URL handling, written twice in the source with the same text
  (in \<open>upload_images\<close> and in \<open>handler\<close>), on a string.\<close>

definition strip_data_url :: "string \<Rightarrow> string" where
  "strip_data_url image_data =
     (if prefix ''data:'' image_data
      then (let base64_prefix_end = str_find image_data (CHR '','')
            in if base64_prefix_end \<noteq> -1
               then drop (nat (base64_prefix_end + 1)) image_data
               else image_data)
      else image_data)"


section \<open>Calls to the outside\<close>

text \<open>
  A call that leaves the process is recorded as an event; a function that makes such calls
  returns its result (or the exception it raised) together with the events it emitted, in
  order.
\<close>

datatype event =
    HttpGet string
  | UploadPost pyval string
  | QueuePost pyval
  | HistoryGet pyval
  | PathExists string
  | Walk string
  | Getmtime string
  | BucketUpload pyval string
  | ReadImage string

type_synonym 'a io = "'a res \<times> event list"

definition return_io :: "'a \<Rightarrow> 'a io" where
  "return_io x = (Inr x, [])"

definition lift_io :: "'a res \<Rightarrow> 'a io" where
  "lift_io r = (r, [])"

definition bind_io :: "'a io \<Rightarrow> ('a \<Rightarrow> 'b io) \<Rightarrow> 'b io" where
  "bind_io m f =
     (case fst m of
        Inl e \<Rightarrow> (Inl e, snd m)
      | Inr x \<Rightarrow> (fst (f x), snd m @ snd (f x)))"

text \<open>\<open>time.sleep(ms / 1000)\<close>: a negative length raises \<open>ValueError\<close>.\<close>

definition py_sleep :: "int \<Rightarrow> unit res" where
  "py_sleep ms = (if ms < 0 then Inl ValueError else Inr ())"

section \<open>check_server\<close>

text \<open>
  The \<open>for i in range(retries)\<close> loop, with \<open>i\<close> the attempts made and \<open>n\<close> the attempts
  left. Only \<open>requests.RequestException\<close> is caught, and the sleep is outside the \<open>try\<close>.
\<close>

fun check_server_loop :: "world \<Rightarrow> string \<Rightarrow> int \<Rightarrow> nat \<Rightarrow> nat \<Rightarrow> bool io" where
  "check_server_loop w url delay i 0 = (Inr False, [])"
| "check_server_loop w url delay i (Suc n) =
     (if http_get w i = Status 200 then (Inr True, [HttpGet url])
      else bind_io (py_sleep delay, [HttpGet url]) (\<lambda>_.
             check_server_loop w url delay (Suc i) n))"

definition check_server :: "world \<Rightarrow> string \<Rightarrow> int \<Rightarrow> int \<Rightarrow> bool io" where
  "check_server w url retries delay = check_server_loop w url delay 0 (nat retries)"

section \<open>upload_images\<close>

text \<open>
  The \<open>try\<close> block for one image, \<open>n\<close> uploads having been posted before: the flag says
  whether the message goes to \<open>responses\<close> (True) or to \<open>upload_errors\<close> (False). A payload
  that fails to decode is never posted.
\<close>

definition upload_one :: "world \<Rightarrow> nat \<Rightarrow> pyval \<Rightarrow> string \<Rightarrow> (bool \<times> string) \<times> event list" where
  "upload_one w n name image_data =
     (case b64decode w image_data of
        Inl e \<Rightarrow>
          ((False, ''Error decoding '' @ py_str w name @ '': '' @ exc_str w e), [])
      | Inr blob \<Rightarrow>
          (case upload_post w n name blob of
             Inl e \<Rightarrow>
               ((False, ''Error decoding '' @ py_str w name @ '': '' @ exc_str w e),
                [UploadPost name blob])
           | Inr (status_code, text) \<Rightarrow>
               (if status_code \<noteq> 200
                then ((False, ''Error uploading '' @ py_str w name @ '': '' @ text),
                      [UploadPost name blob])
                else ((True, ''Successfully uploaded '' @ py_str w name),
                      [UploadPost name blob]))))"

text \<open>
  The \<open>for image in images\<close> loop; the result is \<open>(responses, upload_errors)\<close>. The two
  subscripts and \<open>startswith\<close> are outside the \<open>try\<close>.
\<close>

fun upload_each :: "world \<Rightarrow> nat \<Rightarrow> pyval list \<Rightarrow> (string list \<times> string list) io" where
  "upload_each w n [] = (Inr ([], []), [])"
| "upload_each w n (img # imgs) =
     bind_io (lift_io (py_getitem img ''name'')) (\<lambda>name.
     bind_io (lift_io (py_getitem img ''image'')) (\<lambda>image_data.
       case image_data of
         PStr s \<Rightarrow>
           (let one = upload_one w n name (strip_data_url s)
            in bind_io (Inr (fst one), snd one) (\<lambda>outcome.
               bind_io (upload_each w (n + length (snd one)) imgs) (\<lambda>later.
                 return_io
                   (if fst outcome then (snd outcome # fst later, snd later)
                    else (fst later, snd outcome # snd later)))))
       | _ \<Rightarrow> (Inl AttributeError, [])))"

definition upload_images :: "world \<Rightarrow> pyval \<Rightarrow> pyval io" where
  "upload_images w images =
     (if \<not> py_truthy images
      then return_io (PDict [(''status'', PStr ''success''),
             (''message'', PStr ''No images to upload''), (''details'', PList [])])
      else bind_io (lift_io (py_iter images)) (\<lambda>imgs.
           bind_io (upload_each w 0 imgs) (\<lambda>lists.
             return_io
               (if snd lists \<noteq> []
                then PDict [(''status'', PStr ''error''),
                       (''message'', PStr ''Some images failed to upload''),
                       (''details'', PList (map PStr (snd lists)))]
                else PDict [(''status'', PStr ''success''),
                       (''message'', PStr ''All images uploaded successfully''),
                       (''details'', PList (map PStr (fst lists)))]))))"

section \<open>queue_workflow and get_history\<close>

definition queue_workflow :: "world \<Rightarrow> pyval \<Rightarrow> pyval io" where
  "queue_workflow w workflow = (queue_post w workflow, [QueuePost workflow])"

text \<open>The \<open>n\<close>-th call of \<open>get_history\<close> in the job, counted from 0.\<close>

definition get_history :: "world \<Rightarrow> nat \<Rightarrow> pyval \<Rightarrow> pyval io" where
  "get_history w n prompt_id = (history_get w n prompt_id, [HistoryGet prompt_id])"


section \<open>process_output_images\<close>

text \<open>Method 1, inner loop: the \<open>images\<close> entries of one node's output.\<close>

fun node_image_paths :: "world \<Rightarrow> pyval list \<Rightarrow> string list io" where
  "node_image_paths w [] = return_io []"
| "node_image_paths w (img # imgs) =
     bind_io (lift_io (py_get_default img ''subfolder'' (PStr []))) (\<lambda>subfolder.
     bind_io (lift_io (py_getitem img ''filename'')) (\<lambda>filename.
     bind_io (lift_io (py_path_join (comfy_output_path w) [subfolder, filename])) (\<lambda>image_path.
     bind_io (Inr (path_exists w image_path), [PathExists image_path]) (\<lambda>found.
     bind_io (node_image_paths w imgs) (\<lambda>later.
       return_io (if found then image_path # later else later))))))"

text \<open>Method 1, outer loop over \<open>outputs.items()\<close>.\<close>

fun output_image_paths :: "world \<Rightarrow> (string \<times> pyval) list \<Rightarrow> string list io" where
  "output_image_paths w [] = return_io []"
| "output_image_paths w ((node_id, node_output) # items) =
     bind_io (lift_io (py_contains node_output (PStr ''images''))) (\<lambda>has_images.
     bind_io (if has_images
              then bind_io (lift_io (py_getitem node_output ''images'')) (\<lambda>entries.
                   bind_io (lift_io (py_iter entries)) (\<lambda>imgs. node_image_paths w imgs))
              else return_io []) (\<lambda>here.
     bind_io (output_image_paths w items) (\<lambda>later.
       return_io (here @ later))))"

definition has_image_extension :: "string \<Rightarrow> bool" where
  "has_image_extension file \<longleftrightarrow>
     suffix ''.png'' file \<or> suffix ''.jpg'' file \<or> suffix ''.jpeg'' file \<or> suffix ''.webp'' file"

text \<open>Method 2, inner loop: the files of one directory of the walk.\<close>

fun recent_files :: "world \<Rightarrow> real \<Rightarrow> string \<Rightarrow> string list \<Rightarrow> string list io" where
  "recent_files w current_time dir [] = return_io []"
| "recent_files w current_time dir (file # files) =
     (if has_image_extension file
      then (let file_path = join2 dir file
            in bind_io (getmtime w file_path, [Getmtime file_path]) (\<lambda>file_time.
               bind_io (recent_files w current_time dir files) (\<lambda>later.
                 return_io (if current_time - file_time < 30 then file_path # later
                            else later))))
      else recent_files w current_time dir files)"

text \<open>Method 2, outer loop over \<open>os.walk\<close>.\<close>

fun recent_images :: "world \<Rightarrow> real \<Rightarrow> (string \<times> string list) list \<Rightarrow> string list io" where
  "recent_images w current_time [] = return_io []"
| "recent_images w current_time ((dir, files) # dirs) =
     bind_io (recent_files w current_time dir files) (\<lambda>here.
     bind_io (recent_images w current_time dirs) (\<lambda>later.
       return_io (here @ later)))"

definition scan_output_directory :: "world \<Rightarrow> string list io" where
  "scan_output_directory w =
     bind_io (Inr (now w), [Walk (comfy_output_path w)]) (\<lambda>current_time.
       recent_images w current_time (walk w (comfy_output_path w)))"

text \<open>Both methods: the list \<open>image_paths\<close> when the function reaches "Process the first image".\<close>

definition find_image_paths :: "world \<Rightarrow> pyval \<Rightarrow> string list io" where
  "find_image_paths w outputs =
     bind_io (lift_io (py_items outputs)) (\<lambda>items.
     bind_io (output_image_paths w items) (\<lambda>image_paths.
       if image_paths = [] then scan_output_directory w else return_io image_paths))"

definition process_output_images :: "world \<Rightarrow> pyval \<Rightarrow> pyval \<Rightarrow> pyval io" where
  "process_output_images w outputs job_id =
     bind_io (find_image_paths w outputs) (\<lambda>image_paths.
       case image_paths of
         [] \<Rightarrow> return_io (PDict [(''status'', PStr ''error''),
                 (''message'', PStr ''No output images found in the output directory'')])
       | local_image_path # _ \<Rightarrow>
           bind_io (if bucket_endpoint_url w
                    then (bucket_upload w job_id local_image_path,
                          [BucketUpload job_id local_image_path])
                    else (map_sum (\<lambda>e. e) PStr (read_base64 w local_image_path),
                          [ReadImage local_image_path])) (\<lambda>encoded.
             return_io (PDict [(''status'', PStr ''success''),
               (''message'', encoded),
               (''path'', PStr local_image_path),
               (''all_images'', PList (map PStr image_paths))])))"

section \<open>handler\<close>

text \<open>A block of the handler either returns from the handler or goes on with a value.\<close>

datatype 'a step = Return pyval | Continue 'a

text \<open>\<open>workflow[node_id]["inputs"]["data"] = image_data\<close> on the workflow's items.\<close>

definition set_node_data :: "(string \<times> pyval) list \<Rightarrow> string \<Rightarrow> string \<Rightarrow> (string \<times> pyval) list res" where
  "set_node_data workflow node_id image_data =
     bind_res (py_getitem (PDict workflow) node_id) (\<lambda>node.
     bind_res (py_getitem node ''inputs'') (\<lambda>inputs.
       case inputs of
         PDict input_kvs \<Rightarrow>
           (case node of
              PDict node_kvs \<Rightarrow>
                Inr (AList.update node_id
                       (PDict (AList.update ''inputs''
                          (PDict (AList.update ''data'' (PStr image_data) input_kvs)) node_kvs))
                       workflow)
            | _ \<Rightarrow> Inl TypeError)
       | _ \<Rightarrow> Inl TypeError))"

text \<open>
  The scan \<open>for node_id, node_data in workflow.items()\<close>: the items still to visit, the
  images and the workflow. The inner loop over the images breaks after its first image.
  The result is the workflow and \<open>base64_nodes_found\<close>.
\<close>

fun inject_scan :: "(string \<times> pyval) list \<Rightarrow> pyval \<Rightarrow> (string \<times> pyval) list \<Rightarrow>
    ((string \<times> pyval) list \<times> bool) res" where
  "inject_scan [] images workflow = Inr (workflow, False)"
| "inject_scan ((node_id, node_data) # items) images workflow =
     bind_res (py_get node_data ''class_type'') (\<lambda>class_type.
       if class_type \<in> set [PStr ''LoadImageFromBase64'', PStr ''Base64ToImage'']
       then bind_res (py_iter images) (\<lambda>imgs.
              case imgs of
                [] \<Rightarrow> inject_scan items images workflow
              | img # _ \<Rightarrow>
                  bind_res (py_getitem img ''image'') (\<lambda>image_data.
                    case image_data of
                      PStr s \<Rightarrow>
                        bind_res (set_node_data workflow node_id (strip_data_url s))
                          (\<lambda>workflow'. Inr (workflow', True))
                    | _ \<Rightarrow> Inl AttributeError))
       else inject_scan items images workflow)"

text \<open>
  The block \<open>if images:\<close>: inject, or upload when no node took the image. An upload with
  errors returns the upload result from the handler.
\<close>

definition supply_images :: "world \<Rightarrow> pyval \<Rightarrow> pyval \<Rightarrow> pyval step io" where
  "supply_images w workflow images =
     (if \<not> py_truthy images then return_io (Continue workflow)
      else bind_io (lift_io (py_items workflow)) (\<lambda>items.
           bind_io (lift_io (inject_scan items images items)) (\<lambda>scanned.
             if snd scanned then return_io (Continue (PDict (fst scanned)))
             else bind_io (upload_images w images) (\<lambda>upload_result.
                  bind_io (lift_io (py_getitem upload_result ''status'')) (\<lambda>status.
                    if status = PStr ''error'' then return_io (Return upload_result)
                    else return_io (Continue (PDict (fst scanned))))))))"

text \<open>The block "Queue the workflow": every exception becomes an error result.\<close>

definition submit_workflow :: "world \<Rightarrow> pyval \<Rightarrow> pyval step \<times> event list" where
  "submit_workflow w workflow =
     (case bind_res (fst (queue_workflow w workflow))
             (\<lambda>queued_workflow. py_getitem queued_workflow ''prompt_id'') of
        Inl e \<Rightarrow> (Return (PDict [(''error'',
                    PStr (''Error queuing workflow: '' @ exc_str w e))]),
                  snd (queue_workflow w workflow))
      | Inr prompt_id \<Rightarrow> (Continue prompt_id, snd (queue_workflow w workflow)))"

text \<open>The loop condition \<open>prompt_id in history and history[prompt_id].get("outputs")\<close>.\<close>

definition history_done :: "pyval \<Rightarrow> pyval \<Rightarrow> bool res" where
  "history_done history prompt_id =
     bind_res (py_contains history prompt_id) (\<lambda>present.
       if \<not> present then Inr False
       else bind_res (py_getitem_val history prompt_id) (\<lambda>entry.
            bind_res (py_get entry ''outputs'') (\<lambda>outputs.
              Inr (py_truthy outputs))))"

definition polling_error :: "world \<Rightarrow> exn \<Rightarrow> pyval" where
  "polling_error w e =
     PDict [(''error'', PStr (''Error waiting for image generation: '' @ exc_str w e))]"

text \<open>
  The polling loop inside its \<open>try\<close>, with \<open>n\<close> the history fetches made so far: it ends
  with the history (the \<open>break\<close>), or the handler returns an error result.
\<close>

function poll_loop :: "world \<Rightarrow> pyval \<Rightarrow> int \<Rightarrow> nat \<Rightarrow> pyval step \<times> event list" where
  "poll_loop w prompt_id retries n =
     (if retries < polling_max_retries w
      then (case bind_res (fst (get_history w n prompt_id))
                   (\<lambda>history. bind_res (history_done history prompt_id)
                      (\<lambda>finished. Inr (history, finished))) of
              Inl e \<Rightarrow> (Return (polling_error w e), [HistoryGet prompt_id])
            | Inr (history, finished) \<Rightarrow>
                (if finished then (Continue history, [HistoryGet prompt_id])
                 else (case py_sleep (polling_interval_ms w) of
                         Inl e \<Rightarrow> (Return (polling_error w e), [HistoryGet prompt_id])
                       | Inr _ \<Rightarrow>
                           (fst (poll_loop w prompt_id (retries + 1) (Suc n)),
                            HistoryGet prompt_id #
                              snd (poll_loop w prompt_id (retries + 1) (Suc n))))))
      else (Return (PDict [(''error'',
              PStr ''Max retries reached while waiting for image generation'')]), []))"
  by pat_completeness auto
termination
  by (relation "measure (\<lambda>(w, prompt_id, retries, n). nat (polling_max_retries w - retries))")
    auto

definition wait_for_completion :: "world \<Rightarrow> pyval \<Rightarrow> pyval step \<times> event list" where
  "wait_for_completion w prompt_id = poll_loop w prompt_id 0 0"

text \<open>\<open>{**images_result, "refresh_worker": REFRESH_WORKER}\<close>.\<close>

definition with_refresh_worker :: "world \<Rightarrow> pyval \<Rightarrow> pyval res" where
  "with_refresh_worker w images_result =
     (case images_result of
        PDict kvs \<Rightarrow> Inr (PDict (AList.update ''refresh_worker'' (PBool (refresh_worker w)) kvs))
      | _ \<Rightarrow> Inl TypeError)"

text \<open>The part of the handler after the polling loop.\<close>

definition finish_job :: "world \<Rightarrow> pyval \<Rightarrow> pyval \<Rightarrow> pyval \<Rightarrow> pyval io" where
  "finish_job w history prompt_id job =
     bind_io (lift_io (py_getitem_val history prompt_id)) (\<lambda>entry.
     bind_io (lift_io (py_get entry ''outputs'')) (\<lambda>outputs.
     bind_io (lift_io (py_getitem job ''id'')) (\<lambda>job_id.
     bind_io (process_output_images w outputs job_id) (\<lambda>images_result.
       lift_io (with_refresh_worker w images_result)))))"

text \<open>The part of the handler from "Queue the workflow" on.\<close>

definition run_workflow :: "world \<Rightarrow> pyval \<Rightarrow> pyval \<Rightarrow> pyval io" where
  "run_workflow w workflow job =
     bind_io (Inr (fst (submit_workflow w workflow)), snd (submit_workflow w workflow))
       (\<lambda>queued. case queued of
          Return result \<Rightarrow> return_io result
        | Continue prompt_id \<Rightarrow>
            bind_io (Inr (fst (wait_for_completion w prompt_id)),
                     snd (wait_for_completion w prompt_id))
              (\<lambda>polled. case polled of
                 Return result \<Rightarrow> return_io result
               | Continue history \<Rightarrow> finish_job w history prompt_id job))"

text \<open>
  The handler, given what its call of \<open>check_server\<close> does (\<open>probe\<close>): \<open>Inr\<close> is the
  mapping it returns, \<open>Inl\<close> an exception that leaves it. The value \<open>check_server\<close>
  returns is not used.
\<close>

definition handler_with_probe :: "world \<Rightarrow> pyval \<Rightarrow> bool io \<Rightarrow> pyval io" where
  "handler_with_probe w job probe =
     bind_io (lift_io (py_getitem job ''input'')) (\<lambda>job_input.
     bind_io (lift_io (py_getitem job ''id'')) (\<lambda>job_id.
     bind_io (lift_io (validate_input w job_input)) (\<lambda>validated.
       if py_truthy (snd validated) then return_io (PDict [(''error'', snd validated)])
       else
         bind_io (lift_io (py_getitem (fst validated) ''workflow'')) (\<lambda>workflow.
         bind_io (lift_io (py_get (fst validated) ''images'')) (\<lambda>images.
         bind_io probe (\<lambda>reachable.
         bind_io (supply_images w workflow images) (\<lambda>supplied.
           case supplied of
             Return result \<Rightarrow> return_io result
           | Continue workflow' \<Rightarrow> run_workflow w workflow' job)))))))"

definition handler :: "world \<Rightarrow> pyval \<Rightarrow> pyval io" where
  "handler w job =
     handler_with_probe w job
       (check_server w (''http://'' @ COMFY_HOST)
          COMFY_API_AVAILABLE_MAX_RETRIES COMFY_API_AVAILABLE_INTERVAL_MS)"

section \<open>Vocabulary of the properties\<close>

text \<open>The pipeline stage a call belongs to: probe 1, upload 2, submission 3, polling 4,
  output resolution 5. Validation makes no call.\<close>

fun stage_of :: "event \<Rightarrow> nat" where
  "stage_of (HttpGet _) = 1"
| "stage_of (UploadPost _ _) = 2"
| "stage_of (QueuePost _) = 3"
| "stage_of (HistoryGet _) = 4"
| "stage_of _ = 5"

text \<open>A node definition whose \<open>class_type\<close> is one of the two inline-base64 kinds.\<close>

definition accepts_base64 :: "(string \<times> pyval) list \<Rightarrow> bool" where
  "accepts_base64 node_kvs \<longleftrightarrow>
     map_of node_kvs ''class_type'' = Some (PStr ''LoadImageFromBase64'')
     \<or> map_of node_kvs ''class_type'' = Some (PStr ''Base64ToImage'')"

text \<open>An input image \<open>{name: ..., image: <string>}\<close>, possibly with more keys: its name and
  its image string.\<close>

definition image_entry :: "pyval \<Rightarrow> (pyval \<times> string) option" where
  "image_entry img =
     (case img of
        PDict kvs \<Rightarrow>
          (case (map_of kvs ''name'', map_of kvs ''image'') of
             (Some name, Some (PStr s)) \<Rightarrow> Some (name, s)
           | _ \<Rightarrow> None)
      | _ \<Rightarrow> None)"

text \<open>The upload call made for one such image: none when its payload does not decode.\<close>

definition upload_call :: "world \<Rightarrow> pyval \<times> string \<Rightarrow> event list" where
  "upload_call w entry =
     (case b64decode w (strip_data_url (snd entry)) of
        Inl e \<Rightarrow> []
      | Inr blob \<Rightarrow> [UploadPost (fst entry) blob])"

text \<open>
  A history fetch whose answer is a mapping in which the prompt id has no entry, or an
  entry (a mapping) whose \<open>outputs\<close> is missing or empty; and one whose entry has
  non-empty \<open>outputs\<close>.
\<close>

definition outputs_pending :: "string \<Rightarrow> pyval res \<Rightarrow> bool" where
  "outputs_pending prompt_id fetched =
     (case fetched of
        Inr (PDict history) \<Rightarrow>
          (case map_of history prompt_id of
             None \<Rightarrow> True
           | Some (PDict entry) \<Rightarrow>
               (case map_of entry ''outputs'' of
                  None \<Rightarrow> True
                | Some outputs \<Rightarrow> \<not> py_truthy outputs)
           | Some _ \<Rightarrow> False)
      | _ \<Rightarrow> False)"

definition outputs_populated :: "string \<Rightarrow> pyval res \<Rightarrow> bool" where
  "outputs_populated prompt_id fetched =
     (case fetched of
        Inr (PDict history) \<Rightarrow>
          (case map_of history prompt_id of
             Some (PDict entry) \<Rightarrow>
               (case map_of entry ''outputs'' of
                  None \<Rightarrow> False
                | Some outputs \<Rightarrow> py_truthy outputs)
           | _ \<Rightarrow> False)
      | _ \<Rightarrow> False)"

section \<open>An example environment\<close>

text \<open>
  A JSON parser that knows the text \<open>demo_json\<close> (an input whose \<open>workflow\<close> is the empty
  mapping), a catalog with one workflow \<open>basic.json\<close>, a backend that is up at the third probe and
  has the outputs at the third history fetch, and one output file on disk. The base64
  decoder is a table of the payloads used below: \<open>QUJD\<close> and \<open>AAAA\<close> decode, the single
  character \<open>A\<close> does not (no base64 text has length 1 modulo 4).
\<close>

definition demo_history :: pyval where
  "demo_history =
     PDict [(''p1'', PDict [(''outputs'',
       PDict [(''9'', PDict [(''images'',
         PList [PDict [(''filename'', PStr ''out.png''), (''subfolder'', PStr [])]])])])])]"

definition demo_json :: string where
  "demo_json = ''{'' @ [CHR 0x22] @ ''workflow'' @ [CHR 0x22] @ '': {}}''"

definition demo_world :: world where
  "demo_world = \<lparr>
     json_loads = (\<lambda>s. if s = demo_json then Some (PDict [(''workflow'', PDict [])])
                       else None),
     workflow_files = (\<lambda>path.
       if path = ''/runpod-volume/workflows/basic.json''
       then Parsed (PDict [(''3'', PDict [(''class_type'', PStr ''KSampler''),
                                         (''inputs'', PDict [])])])
       else Missing),
     http_get = (\<lambda>n. if n < 2 then RequestException else Status 200),
     b64decode = (\<lambda>s.
       if s = ''QUJD'' then Inr ''ABC''
       else if s = ''AAAA'' then Inr [CHR 0x00, CHR 0x00, CHR 0x00]
       else Inl (EnvError ''Incorrect padding'')),
     upload_post = (\<lambda>n name blob. Inr (200, ''{}'')),
     queue_post = (\<lambda>workflow. Inr (PDict [(''prompt_id'', PStr ''p1'')])),
     history_get = (\<lambda>n prompt_id. Inr (if n < 2 then PDict [] else demo_history)),
     path_exists = (\<lambda>path. path = ''/comfyui/output/out.png''),
     walk = (\<lambda>dir. [(''/comfyui/output'', [''out.png'', ''old.png'', ''notes.txt''])]),
     getmtime = (\<lambda>path. Inr (if path = ''/comfyui/output/out.png'' then 990 else 100)),
     now = 1000,
     bucket_upload = (\<lambda>job_id path. Inr (PStr ''https://bucket.example/out.png'')),
     read_base64 = (\<lambda>path. Inr ''aGk=''),
     exc_text = (\<lambda>e. ''error''),
     repr = (\<lambda>v. ''value''),
     polling_interval_ms = 250,
     polling_max_retries = 500,
     refresh_worker = False,
     comfy_output_path = ''/comfyui/output'',
     bucket_endpoint_url = False
   \<rparr>"


section \<open>Properties\<close>

lemma bind_res_simps [simp]:
  "bind_res (Inl e) f = Inl e" "bind_res (Inr x) f = f x"
  by (simp_all add: bind_res_def)

lemma bind_io_simps [simp]:
  "bind_io (Inl e, evs) f = (Inl e, evs)"
  "bind_io (Inr x, evs) f = (fst (f x), evs @ snd (f x))"
  by (simp_all add: bind_io_def)

lemma lift_io_simps [simp]: "lift_io r = (r, [])"
  by (simp add: lift_io_def)

lemma return_io_simps [simp]: "return_io x = (Inr x, [])"
  by (simp add: return_io_def)

subsection \<open>Data-URL stripping\<close>





subsection \<open>Workflow canonicalization\<close>

lemma map_of_size: "map_of kvs k = Some v \<Longrightarrow> size v < size (PDict kvs)"
  by (induction kvs) (auto split: if_splits)

text \<open>
  C5, as amended. Canonicalization returns a workflow mapping unchanged exactly when the
  mapping has no top-level key \<open>prompt\<close>; a mapping that has one is unwrapped to the value
  under that key.
\<close>

theorem canonicalize_fixpoint_iff:
  "(canonicalize_workflow (PDict kvs) = Inr (PDict kvs) \<longleftrightarrow> map_of kvs ''prompt'' = None)
   \<and> (map_of kvs ''prompt'' = Some v \<longrightarrow> canonicalize_workflow (PDict kvs) = Inr v)"
proof (intro conjI impI iffI)
  assume a: "canonicalize_workflow (PDict kvs) = Inr (PDict kvs)"
  show "map_of kvs ''prompt'' = None"
  proof (rule ccontr)
    assume "map_of kvs ''prompt'' \<noteq> None"
    then obtain u where u: "map_of kvs ''prompt'' = Some u" by auto
    with a have "u = PDict kvs" by (simp add: canonicalize_workflow_def)
    moreover from u have "size u < size (PDict kvs)" by (rule map_of_size)
    ultimately show False by simp
  qed
next
  assume "map_of kvs ''prompt'' = None"
  then show "canonicalize_workflow (PDict kvs) = Inr (PDict kvs)"
    by (simp add: canonicalize_workflow_def)
next
  assume "map_of kvs ''prompt'' = Some v"
  then show "canonicalize_workflow (PDict kvs) = Inr v"
    by (simp add: canonicalize_workflow_def)
qed

theorem canonicalize_fixpoint_iff_witness:
  "canonicalize_workflow
     (PDict [(''3'', PDict [(''class_type'', PStr ''KSampler''), (''inputs'', PDict [])])])
   = Inr (PDict [(''3'', PDict [(''class_type'', PStr ''KSampler''), (''inputs'', PDict [])])])
   \<and> canonicalize_workflow (PDict [(''prompt'', PDict [(''3'', PDict [])])])
   = Inr (PDict [(''3'', PDict [])])"
  using canonicalize_fixpoint_iff
      [of "[(''3'', PDict [(''class_type'', PStr ''KSampler''), (''inputs'', PDict [])])]"]
    canonicalize_fixpoint_iff
      [of "[(''prompt'', PDict [(''3'', PDict [])])]" "PDict [(''3'', PDict [])]"]
  by simp

text \<open>
  The claim as stated fails: resolving a doubly wrapped file gives a mapping from the node
  id \<open>prompt\<close> to a node definition, and canonicalizing that result again changes it.
\<close>

theorem canonicalize_not_idempotent:
  "canonicalize_workflow
     (PDict [(''prompt'', PDict [(''prompt'',
        PDict [(''class_type'', PStr ''SaveImage''), (''inputs'', PDict [])])])])
   = Inr (PDict [(''prompt'',
        PDict [(''class_type'', PStr ''SaveImage''), (''inputs'', PDict [])])])
   \<and> canonicalize_workflow
     (PDict [(''prompt'',
        PDict [(''class_type'', PStr ''SaveImage''), (''inputs'', PDict [])])])
   \<noteq> Inr (PDict [(''prompt'',
        PDict [(''class_type'', PStr ''SaveImage''), (''inputs'', PDict [])])])"
  by (simp add: canonicalize_workflow_def)

subsection \<open>Input validation\<close>

text \<open>
  C10. An input whose \<open>workflow\<close> is present but falsy, and whose \<open>workflow_name\<close> is
  absent or falsy, gets the missing-workflow error, whether the input is a mapping or a
  JSON string of one.
\<close>

theorem falsy_workflow_is_missing:
  assumes "map_of kvs ''workflow'' = Some workflow" and "\<not> py_truthy workflow"
    and "case map_of kvs ''workflow_name'' of None \<Rightarrow> True | Some n \<Rightarrow> \<not> py_truthy n"
  shows "validate_input w (PDict kvs) =
           Inr (PNone, PStr ''Missing 'workflow' or 'workflow_name' parameter'')
         \<and> (json_loads w s = Some (PDict kvs) \<longrightarrow> validate_input w (PStr s) =
           Inr (PNone, PStr ''Missing 'workflow' or 'workflow_name' parameter''))"
  using assms by (auto simp: validate_input_def py_get_def split: option.splits)

theorem falsy_workflow_is_missing_witness:
  "validate_input demo_world (PDict [(''workflow'', PDict [])]) =
     Inr (PNone, PStr ''Missing 'workflow' or 'workflow_name' parameter'')
   \<and> validate_input demo_world (PStr demo_json) =
     Inr (PNone, PStr ''Missing 'workflow' or 'workflow_name' parameter'')
   \<and> validate_input demo_world
       (PDict [(''workflow'', PStr []), (''workflow_name'', PStr [])]) =
     Inr (PNone, PStr ''Missing 'workflow' or 'workflow_name' parameter'')"
  using falsy_workflow_is_missing
      [of "[(''workflow'', PDict [])]" "PDict []" demo_world demo_json]
    falsy_workflow_is_missing
      [of "[(''workflow'', PStr []), (''workflow_name'', PStr [])]" "PStr []" demo_world]
  by (simp add: demo_world_def)

lemma bind_res_Inr_E:
  assumes "bind_res m f = Inr y"
  obtains x where "m = Inr x" and "f x = Inr y"
  using assms by (cases m) simp_all

lemma bind_res_eq_Inr: "bind_res m f = Inr y \<longleftrightarrow> (\<exists>x. m = Inr x \<and> f x = Inr y)"
  by (cases m) simp_all

lemma demo_world_simps [simp]:
  "json_loads demo_world =
     (\<lambda>s. if s = demo_json then Some (PDict [(''workflow'', PDict [])]) else None)"
  "workflow_files demo_world = (\<lambda>path.
       if path = ''/runpod-volume/workflows/basic.json''
       then Parsed (PDict [(''3'', PDict [(''class_type'', PStr ''KSampler''),
                                         (''inputs'', PDict [])])])
       else Missing)"
  "http_get demo_world = (\<lambda>n. if n < 2 then RequestException else Status 200)"
  "b64decode demo_world = (\<lambda>s.
       if s = ''QUJD'' then Inr ''ABC''
       else if s = ''AAAA'' then Inr [CHR 0x00, CHR 0x00, CHR 0x00]
       else Inl (EnvError ''Incorrect padding''))"
  "upload_post demo_world = (\<lambda>n name blob. Inr (200, ''{}''))"
  "queue_post demo_world = (\<lambda>workflow. Inr (PDict [(''prompt_id'', PStr ''p1'')]))"
  "history_get demo_world = (\<lambda>n prompt_id. Inr (if n < 2 then PDict [] else demo_history))"
  "path_exists demo_world = (\<lambda>path. path = ''/comfyui/output/out.png'')"
  "walk demo_world = (\<lambda>dir. [(''/comfyui/output'', [''out.png'', ''old.png'', ''notes.txt''])])"
  "getmtime demo_world = (\<lambda>path. Inr (if path = ''/comfyui/output/out.png'' then 990 else 100))"
  "now demo_world = 1000"
  "bucket_upload demo_world = (\<lambda>job_id path. Inr (PStr ''https://bucket.example/out.png''))"
  "read_base64 demo_world = (\<lambda>path. Inr ''aGk='')"
  "exc_text demo_world = (\<lambda>e. ''error'')"
  "repr demo_world = (\<lambda>v. ''value'')"
  "polling_interval_ms demo_world = 250"
  "polling_max_retries demo_world = 500"
  "refresh_worker demo_world = False"
  "comfy_output_path demo_world = ''/comfyui/output''"
  "bucket_endpoint_url demo_world = False"
  by (simp_all add: demo_world_def)

lemma load_workflow_by_name_str:
  "\<exists>loaded. load_workflow_by_name w (PStr name) = Inr loaded"
  by (simp add: load_workflow_by_name_def Let_def split: file_state.splits sum.splits)

lemma validate_images_workflow:
  "validate_images job_input workflow = Inr (v, PNone) \<Longrightarrow>
   py_getitem v ''workflow'' = Inr workflow"
  by (cases "py_get job_input ''images''")
    (auto simp: validate_images_def Let_def split: pyval.splits if_splits sum.splits
       elim!: bind_res_Inr_E)

text \<open>
  C9, as amended. When the input has a \<open>workflow\<close> and a non-empty string
  \<open>workflow_name\<close>, the inline workflow is not used: validation fails with the loading
  error when the catalog gives nothing, and otherwise goes on with the loaded workflow,
  which is the workflow of every validated request. When \<open>workflow_name\<close> is present but
  falsy, the inline workflow is kept.
\<close>

theorem named_workflow_replaces_inline:
  "(map_of kvs ''workflow'' = Some inline \<and> map_of kvs ''workflow_name'' = Some (PStr name)
      \<and> name \<noteq> [] \<longrightarrow>
    (\<exists>loaded. load_workflow_by_name w (PStr name) = Inr loaded
       \<and> (\<not> py_truthy loaded \<longrightarrow> validate_input w (PDict kvs) =
             Inr (PNone, PStr (''Could not load workflow: '' @ name)))
       \<and> (py_truthy loaded \<longrightarrow>
             validate_input w (PDict kvs) = validate_images (PDict kvs) loaded)
       \<and> (\<forall>v. validate_input w (PDict kvs) = Inr (v, PNone) \<longrightarrow>
             py_getitem v ''workflow'' = Inr loaded)))
   \<and> (map_of kvs ''workflow'' = Some inline \<and> py_truthy inline
      \<and> map_of kvs ''workflow_name'' = Some falsy_name \<and> \<not> py_truthy falsy_name \<longrightarrow>
    validate_input w (PDict kvs) = validate_images (PDict kvs) inline)"
proof (intro conjI impI)
  assume a: "map_of kvs ''workflow'' = Some inline \<and>
    map_of kvs ''workflow_name'' = Some (PStr name) \<and> name \<noteq> []"
  obtain loaded where l: "load_workflow_by_name w (PStr name) = Inr loaded"
    using load_workflow_by_name_str by blast
  have v: "validate_input w (PDict kvs) =
      (if \<not> py_truthy loaded
       then Inr (PNone, PStr (''Could not load workflow: '' @ name))
       else validate_images (PDict kvs) loaded)"
    using a l by (simp add: validate_input_def py_get_def py_str_def)
  have "\<forall>v. validate_input w (PDict kvs) = Inr (v, PNone) \<longrightarrow>
      py_getitem v ''workflow'' = Inr loaded"
    using v validate_images_workflow [of "PDict kvs" loaded]
    by (auto split: if_splits)
  with l v show "\<exists>loaded. load_workflow_by_name w (PStr name) = Inr loaded
       \<and> (\<not> py_truthy loaded \<longrightarrow> validate_input w (PDict kvs) =
             Inr (PNone, PStr (''Could not load workflow: '' @ name)))
       \<and> (py_truthy loaded \<longrightarrow>
             validate_input w (PDict kvs) = validate_images (PDict kvs) loaded)
       \<and> (\<forall>v. validate_input w (PDict kvs) = Inr (v, PNone) \<longrightarrow>
             py_getitem v ''workflow'' = Inr loaded)"
    by auto
next
  assume "map_of kvs ''workflow'' = Some inline \<and> py_truthy inline
      \<and> map_of kvs ''workflow_name'' = Some falsy_name \<and> \<not> py_truthy falsy_name"
  then show "validate_input w (PDict kvs) = validate_images (PDict kvs) inline"
    by (simp add: validate_input_def py_get_def)
qed

theorem named_workflow_replaces_inline_witness:
  "validate_input demo_world
     (PDict [(''workflow'', PDict [(''1'', PDict [(''class_type'', PStr ''SaveImage'')])]),
             (''workflow_name'', PStr ''basic'')])
   = Inr (PDict [(''workflow'',
            PDict [(''3'', PDict [(''class_type'', PStr ''KSampler''), (''inputs'', PDict [])])]),
          (''images'', PNone)], PNone)
   \<and> validate_input demo_world
     (PDict [(''workflow'', PDict [(''1'', PDict [(''class_type'', PStr ''SaveImage'')])]),
             (''workflow_name'', PStr ''absent'')])
   = Inr (PNone, PStr ''Could not load workflow: absent'')
   \<and> validate_input demo_world
     (PDict [(''workflow'', PDict [(''1'', PDict [(''class_type'', PStr ''SaveImage'')])]),
             (''workflow_name'', PNone)])
   = Inr (PDict [(''workflow'', PDict [(''1'', PDict [(''class_type'', PStr ''SaveImage'')])]),
          (''images'', PNone)], PNone)"
  using named_workflow_replaces_inline
      [of "[(''workflow'', PDict [(''1'', PDict [(''class_type'', PStr ''SaveImage'')])]),
            (''workflow_name'', PStr ''basic'')]"
          "PDict [(''1'', PDict [(''class_type'', PStr ''SaveImage'')])]" "''basic''"
          demo_world PNone]
    named_workflow_replaces_inline
      [of "[(''workflow'', PDict [(''1'', PDict [(''class_type'', PStr ''SaveImage'')])]),
            (''workflow_name'', PStr ''absent'')]"
          "PDict [(''1'', PDict [(''class_type'', PStr ''SaveImage'')])]" "''absent''"
          demo_world PNone]
    named_workflow_replaces_inline
      [of "[(''workflow'', PDict [(''1'', PDict [(''class_type'', PStr ''SaveImage'')])]),
            (''workflow_name'', PNone)]"
          "PDict [(''1'', PDict [(''class_type'', PStr ''SaveImage'')])]" "[]"
          demo_world PNone]
  by (simp add: load_workflow_by_name_def canonicalize_workflow_def suffix_to_prefix
      validate_images_def py_get_def py_str_def join2_def WORKFLOW_DIR_def Let_def)

text \<open>
  The claim as stated fails for a \<open>workflow_name\<close> that is present but empty: nothing is
  loaded for it, and validation succeeds with the inline workflow.
\<close>

theorem empty_workflow_name_keeps_inline:
  "load_workflow_by_name demo_world (PStr []) = Inr PNone
   \<and> validate_input demo_world
     (PDict [(''workflow'', PDict [(''1'', PDict [(''class_type'', PStr ''SaveImage'')])]),
             (''workflow_name'', PStr [])])
   = Inr (PDict [(''workflow'', PDict [(''1'', PDict [(''class_type'', PStr ''SaveImage'')])]),
          (''images'', PNone)], PNone)"
  by (simp add: load_workflow_by_name_def validate_input_def suffix_to_prefix
      validate_images_def py_get_def py_str_def join2_def WORKFLOW_DIR_def Let_def)








end
